theory Spec2Isabelle
  imports Complex_Main
begin

section \<open>The toss game of \<^verbatim>\<open>src/components/GameCanvas.tsx\<close>\<close>

text \<open>
  The component keeps a discrete phase (\<^verbatim>\<open>gameState\<close>), a score, and a mutable
  \<^verbatim>\<open>physicsState\<close> holding the ball, its velocity and the current drag gesture. Pointer
  handlers and the per-frame \<^verbatim>\<open>render\<close> callback read and update them.

  JavaScript numbers are modelled as \<^typ>\<open>real\<close>: every operation of the simulation on
  finite numbers is taken exactly, as the data model of the specification does ("real
  numbers"). The one operation that leaves the finite numbers on finite input, the division
  in \<^verbatim>\<open>project\<close>, is made explicit with an \<^typ>\<open>'a option\<close>. Rounding, overflow and
  \<^verbatim>\<open>NaN\<close> are outside the model.

  State updates requested with \<^verbatim>\<open>setGameState\<close> and \<^verbatim>\<open>setScore\<close> are applied to
  the component record at once; inside one handler the phase that is tested is the one the
  handler's closure captured, that is, the phase on entry.
\<close>

subsection \<open>Data (\<^verbatim>\<open>src/types.ts\<close>, \<^verbatim>\<open>GameCanvas.tsx\<close> lines 23-33)\<close>

datatype GameState = IDLE | DRAGGING | THROWN | LANDED | MISSED

text \<open>\<^verbatim>\<open>Point3D {x, y, z}\<close>; the fields carry a prefix, since \<open>x\<close>, \<open>y\<close> and \<open>z\<close> are
  wanted as variables.\<close>

record Point3D =
  p_x :: real
  p_y :: real
  p_z :: real

text \<open>The \<^verbatim>\<open>{x, y}\<close> objects of \<^verbatim>\<open>dragStart\<close> and \<^verbatim>\<open>dragCurrent\<close>.\<close>

record Point2D =
  d_x :: real
  d_y :: real

record PhysicsState =
  ball :: Point3D
  velocity :: Point3D
  dragStart :: Point2D
  dragCurrent :: Point2D
  lastTime :: real

text \<open>The value \<^verbatim>\<open>project\<close> returns: \<^verbatim>\<open>{x, y, scale}\<close>.\<close>

record ScreenPoint =
  s_x :: real
  s_y :: real
  scale :: real

text \<open>
  The component with the part of its environment that the handlers touch: the canvas size
  (\<^verbatim>\<open>canvas.width\<close>, \<^verbatim>\<open>canvas.height\<close>, unsigned integers in the DOM), the values handed
  to \<^verbatim>\<open>onScoreUpdate\<close> in call order, the delays of the pending \<^verbatim>\<open>setTimeout\<close> callbacks
  (each callback is \<^verbatim>\<open>() => resetBall(canvas.width, canvas.height)\<close>), whether a call of
  \<^verbatim>\<open>render\<close> is scheduled (\<^verbatim>\<open>animationFrameId\<close>), and whether the component is mounted.
\<close>

record GameCanvas =
  gameState :: GameState
  score :: nat
  physicsState :: PhysicsState
  canvas_width :: nat
  canvas_height :: nat
  scoreUpdates :: "nat list"
  timeouts :: "nat list"
  animationFrame :: bool
  mounted :: bool

subsection \<open>Game constants (lines 11-19, 125, 133)\<close>

definition GRAVITY :: real where "GRAVITY = 0.5"
definition AIR_RESISTANCE :: real where "AIR_RESISTANCE = 0.98"
definition WIND_FACTOR :: real where "WIND_FACTOR = 0.05"
definition THROW_SCALE :: real where "THROW_SCALE = 0.15"
definition PERSPECTIVE :: real where "PERSPECTIVE = 800"
definition GROUND_Y :: real where "GROUND_Y = 600"
definition BIN_Z :: real where "BIN_Z = 600"
definition BIN_RADIUS :: real where "BIN_RADIUS = 60"
definition BALL_RADIUS :: real where "BALL_RADIUS = 15"
definition floorY :: real where "floorY = 300"
definition binRimY :: real where "binRimY = 150"

definition zero3 :: Point3D where
  "zero3 = \<lparr>p_x = 0, p_y = 0, p_z = 0\<rparr>"

text \<open>The component as first mounted (lines 23-33), on a canvas of the given size, with
  the first call of \<^verbatim>\<open>render\<close> (line 276) pending.\<close>

definition initial :: "nat \<Rightarrow> nat \<Rightarrow> GameCanvas" where
  "initial w h =
     \<lparr>gameState = IDLE, score = 0,
      physicsState = \<lparr>ball = zero3, velocity = zero3,
                      dragStart = \<lparr>d_x = 0, d_y = 0\<rparr>, dragCurrent = \<lparr>d_x = 0, d_y = 0\<rparr>,
                      lastTime = 0\<rparr>,
      canvas_width = w, canvas_height = h,
      scoreUpdates = [], timeouts = [], animationFrame = True, mounted = True\<rparr>"

subsection \<open>\<^verbatim>\<open>resetBall\<close> and the pointer handlers (lines 35-77)\<close>

definition resetBall :: "real \<Rightarrow> real \<Rightarrow> GameCanvas \<Rightarrow> GameCanvas" where
  "resetBall width height c =
     c\<lparr>physicsState := (physicsState c)
          \<lparr>ball := \<lparr>p_x = 0, p_y = height / 2 - 100, p_z = 0\<rparr>,
           velocity := \<lparr>p_x = 0, p_y = 0, p_z = 0\<rparr>\<rparr>,
       gameState := IDLE\<rparr>"

definition handlePointerDown :: "real \<Rightarrow> real \<Rightarrow> GameCanvas \<Rightarrow> GameCanvas" where
  "handlePointerDown clientX clientY c =
     (if gameState c \<noteq> IDLE then c
      else c\<lparr>gameState := DRAGGING,
             physicsState := (physicsState c)
               \<lparr>dragStart := \<lparr>d_x = clientX, d_y = clientY\<rparr>,
                dragCurrent := \<lparr>d_x = clientX, d_y = clientY\<rparr>\<rparr>\<rparr>)"

definition handlePointerMove :: "real \<Rightarrow> real \<Rightarrow> GameCanvas \<Rightarrow> GameCanvas" where
  "handlePointerMove clientX clientY c =
     (if gameState c = DRAGGING
      then c\<lparr>physicsState := (physicsState c)\<lparr>dragCurrent := \<lparr>d_x = clientX, d_y = clientY\<rparr>\<rparr>\<rparr>
      else c)"

text \<open>The gesture delta that \<^verbatim>\<open>handlePointerUp\<close> reads (lines 57-58): it comes from the
  recorded drag, not from the coordinates of the releasing event.\<close>

definition drag_dx :: "GameCanvas \<Rightarrow> real" where
  "drag_dx c = d_x (dragCurrent (physicsState c)) - d_x (dragStart (physicsState c))"

definition drag_dy :: "GameCanvas \<Rightarrow> real" where
  "drag_dy c = d_y (dragCurrent (physicsState c)) - d_y (dragStart (physicsState c))"

definition handlePointerUp :: "real \<Rightarrow> real \<Rightarrow> GameCanvas \<Rightarrow> GameCanvas" where
  "handlePointerUp clientX clientY c =
     (if gameState c \<noteq> DRAGGING then c
      else
        let dx = drag_dx c;
            dy = drag_dy c;
            throwPowerY = min dy 0
        in if \<bar>throwPowerY\<bar> < 50 then c\<lparr>gameState := IDLE\<rparr>
           else
             let vz = \<bar>throwPowerY\<bar> * THROW_SCALE * 1.5;
                 vy = throwPowerY * THROW_SCALE * 0.8;
                 vx = dx * THROW_SCALE * 0.5
             in c\<lparr>physicsState := (physicsState c)\<lparr>velocity := \<lparr>p_x = vx, p_y = vy, p_z = vz\<rparr>\<rparr>,
                  gameState := THROWN\<rparr>)"

subsection \<open>One call of \<^verbatim>\<open>render\<close> (lines 88-274)\<close>

text \<open>Lines 90-97: the canvas follows the window; an idle ball is reset on a resize.
  The phase \<open>g\<close> is the one captured by the closure.\<close>

definition resize :: "GameState \<Rightarrow> nat \<Rightarrow> nat \<Rightarrow> GameCanvas \<Rightarrow> GameCanvas" where
  "resize g innerWidth innerHeight c =
     (if canvas_width c \<noteq> innerWidth \<or> canvas_height c \<noteq> innerHeight
      then
        let c1 = c\<lparr>canvas_width := innerWidth, canvas_height := innerHeight\<rparr>
        in if g = IDLE then resetBall (real (canvas_width c1)) (real (canvas_height c1)) c1
           else c1
      else c)"

text \<open>Lines 104-117: the forces, the air resistance and the position update, statement by
  statement, on the two objects \<^verbatim>\<open>ball\<close> and \<^verbatim>\<open>velocity\<close>.\<close>

definition integrate :: "real \<Rightarrow> PhysicsState \<Rightarrow> PhysicsState" where
  "integrate windSpeed ps =
     (let v0 = velocity ps;
          v1 = v0\<lparr>p_y := p_y v0 + GRAVITY\<rparr>;
          v2 = v1\<lparr>p_x := p_x v1 + windSpeed * WIND_FACTOR\<rparr>;
          v3 = v2\<lparr>p_x := p_x v2 * AIR_RESISTANCE\<rparr>;
          v4 = v3\<lparr>p_z := p_z v3 * AIR_RESISTANCE\<rparr>;
          b0 = ball ps;
          b1 = b0\<lparr>p_x := p_x b0 + p_x v4\<rparr>;
          b2 = b1\<lparr>p_y := p_y b1 + p_y v4\<rparr>;
          b3 = b2\<lparr>p_z := p_z b2 + p_z v4\<rparr>
      in ps\<lparr>ball := b3, velocity := v4\<rparr>)"

text \<open>Lines 138-144: what the innermost branch of the bin check does.\<close>

definition landed :: "GameCanvas \<Rightarrow> GameCanvas" where
  "landed c =
     (let newScore = score c + 1
      in c\<lparr>gameState := LANDED, score := newScore,
           scoreUpdates := scoreUpdates c @ [newScore],
           timeouts := timeouts c @ [1000]\<rparr>)"

text \<open>Lines 151-152.\<close>

definition missed :: "GameCanvas \<Rightarrow> GameCanvas" where
  "missed c = c\<lparr>gameState := MISSED, timeouts := timeouts c @ [1000]\<rparr>"

text \<open>Lines 129-153: the bin check, three nested tests, followed by the miss test, which
  is a statement of its own and not an \<^verbatim>\<open>else\<close> branch.\<close>

definition collision :: "GameCanvas \<Rightarrow> GameCanvas" where
  "collision c =
     (let b = ball (physicsState c);
          c1 = (if p_z b \<ge> BIN_Z \<and> p_z b \<le> BIN_Z + 50
                then (if \<bar>p_y b - binRimY\<bar> < 50
                      then (if \<bar>p_x b\<bar> < BIN_RADIUS then landed c else c)
                      else c)
                else c)
      in if p_y b > floorY + 200 \<or> p_z b > BIN_Z + 200 then missed c1 else c1)"

text \<open>Lines 103-157: the physics section of the frame.\<close>

definition physics :: "GameState \<Rightarrow> real \<Rightarrow> GameCanvas \<Rightarrow> GameCanvas" where
  "physics g windSpeed c =
     (if g = THROWN
      then collision (c\<lparr>physicsState := integrate windSpeed (physicsState c)\<rparr>)
      else if g = IDLE \<or> g = DRAGGING
      then c\<lparr>physicsState := (physicsState c)\<lparr>ball := \<lparr>p_x = 0, p_y = 300, p_z = 0\<rparr>\<rparr>\<rparr>
      else c)"

text \<open>Lines 198-205. The quotient is a number only when the divisor is not zero.\<close>

definition project :: "real \<Rightarrow> real \<Rightarrow> Point3D \<Rightarrow> ScreenPoint option" where
  "project centerX centerY p =
     (if PERSPECTIVE + p_z p = 0 then None
      else
        let scale = PERSPECTIVE / (PERSPECTIVE + p_z p)
        in Some \<lparr>s_x = centerX + p_x p * scale, s_y = centerY + p_y p * scale, scale = scale\<rparr>)"

text \<open>Lines 99-100 and 233-234: the projection of the ball that is drawn.\<close>

definition projBall :: "GameCanvas \<Rightarrow> ScreenPoint option" where
  "projBall c =
     project (real (canvas_width c) / 2) (real (canvas_height c) / 2 + 100)
       (ball (physicsState c))"

text \<open>The whole callback: resize, physics, drawing (which changes nothing here), and the
  request for the next frame (line 273).\<close>

definition render :: "real \<Rightarrow> nat \<Rightarrow> nat \<Rightarrow> GameCanvas \<Rightarrow> GameCanvas" where
  "render windSpeed innerWidth innerHeight c =
     (let g = gameState c
      in (physics g windSpeed (resize g innerWidth innerHeight c))\<lparr>animationFrame := True\<rparr>)"

subsection \<open>The events that reach the component\<close>

text \<open>
  A frame carries the wind of the current props and the window size it reads. The
  scheduled frame runs only while one is pending; the effect's cleanup (line 278) cancels
  it and nothing else. A pending timeout runs its callback whether or not the component is
  still mounted, since no handle of it is kept and \<^verbatim>\<open>clearTimeout\<close> is never called; the
  phase of an unmounted component no longer changes (React drops the update), while the
  \<^verbatim>\<open>physicsState\<close> object is written as before.
\<close>

datatype Event =
    PointerDown real real
  | PointerMove real real
  | PointerUp real real
  | PointerLeave real real
  | Frame real nat nat
  | Timeout
  | Unmount

definition cleanup :: "GameCanvas \<Rightarrow> GameCanvas" where
  "cleanup c = c\<lparr>animationFrame := False\<rparr>"

definition fireTimeout :: "GameCanvas \<Rightarrow> GameCanvas" where
  "fireTimeout c =
     (case timeouts c of
        [] \<Rightarrow> c
      | d # ds \<Rightarrow>
          let c1 = resetBall (real (canvas_width c)) (real (canvas_height c)) (c\<lparr>timeouts := ds\<rparr>)
          in if mounted c then c1 else c1\<lparr>gameState := gameState c\<rparr>)"

fun step :: "Event \<Rightarrow> GameCanvas \<Rightarrow> GameCanvas" where
  "step (PointerDown px py) c = (if mounted c then handlePointerDown px py c else c)"
| "step (PointerMove px py) c = (if mounted c then handlePointerMove px py c else c)"
| "step (PointerUp px py) c = (if mounted c then handlePointerUp px py c else c)"
| "step (PointerLeave px py) c = (if mounted c then handlePointerUp px py c else c)"
| "step (Frame windSpeed innerWidth innerHeight) c =
     (if animationFrame c then render windSpeed innerWidth innerHeight c else c)"
| "step Timeout c = fireTimeout c"
| "step Unmount c = (cleanup c)\<lparr>mounted := False\<rparr>"

fun run :: "Event list \<Rightarrow> GameCanvas \<Rightarrow> GameCanvas" where
  "run [] c = c"
| "run (e # es) c = run es (step e c)"

inductive reachable :: "GameCanvas \<Rightarrow> bool" where
  reachable_initial: "reachable (initial w h)"
| reachable_step: "reachable c \<Longrightarrow> reachable (step e c)"


subsection \<open>Example sessions\<close>

text \<open>
  An upward swipe of 115 pixels on an 800 by 600 window, with no wind: the state at the
  release, and the state 31 frames later, one frame before the ball lands in the bin.
\<close>

definition swipe :: "Event list" where
  "swipe = [Frame 0 800 600, PointerDown 400 500, PointerMove 400 385, PointerUp 400 385]"

definition released :: GameCanvas where
  "released = run swipe (initial 300 150)"

definition flight :: GameCanvas where
  "flight = run (replicate 31 (Frame 0 800 600)) released"

text \<open>The landing frame; two frames, the second after the window has grown to 1024 by
  768, and a pointer press while the reset is pending; the reset; the next frame.\<close>

definition landing :: GameCanvas where
  "landing = render 0 800 600 flight"

definition waited :: GameCanvas where
  "waited = run [Frame 0 800 600, PointerDown 400 500, Frame 0 1024 768] landing"

definition reset_done :: GameCanvas where
  "reset_done = step Timeout waited"

definition idle_frame :: GameCanvas where
  "idle_frame = render 0 1024 768 reset_done"

text \<open>The two gestures of the specification's end-to-end examples, before the pointer is
  released: from (100, 500) to (100, 480), and from (100, 500) to (100, 430).\<close>

definition weak_drag :: GameCanvas where
  "weak_drag = run [Frame 0 800 600, PointerDown 100 500, PointerMove 100 480] (initial 300 150)"

definition firm_drag :: GameCanvas where
  "firm_drag = run [Frame 0 800 600, PointerDown 100 500, PointerMove 100 430] (initial 300 150)"

text \<open>A gesture with a sideways part, from (100, 500) to (160, 380), before the pointer is
  released.\<close>

definition side_drag :: GameCanvas where
  "side_drag = run [Frame 0 800 600, PointerDown 100 500, PointerMove 160 380] (initial 300 150)"

text \<open>An upward swipe of 1000 pixels on a 1920 by 1080 window: after three frames the ball
  is past the bin, and the fourth frame records the miss.\<close>

definition long_swipe :: "Event list" where
  "long_swipe = [Frame 0 1920 1080, PointerDown 960 1050, PointerMove 960 50, PointerUp 960 50]"

definition long_flight :: GameCanvas where
  "long_flight =
     run (long_swipe @ [Frame 0 1920 1080, Frame 0 1920 1080, Frame 0 1920 1080])
       (initial 300 150)"

definition overshot :: GameCanvas where
  "overshot = step (Frame 0 1920 1080) long_flight"

subsection \<open>An invariant of the phases\<close>

text \<open>
  At most one reset is pending, and only after a landing or a miss; the ball is at rest
  while the phase is \<open>IDLE\<close> or \<open>DRAGGING\<close>, and moves away from the camera while it is
  \<open>THROWN\<close>.
\<close>

definition phase_inv :: "GameCanvas \<Rightarrow> bool" where
  "phase_inv c \<longleftrightarrow>
     length (timeouts c) \<le> 1 \<and>
     (timeouts c \<noteq> [] \<longrightarrow> gameState c = LANDED \<or> gameState c = MISSED) \<and>
     (gameState c = IDLE \<or> gameState c = DRAGGING \<longrightarrow> velocity (physicsState c) = zero3) \<and>
     (gameState c = THROWN \<longrightarrow> 0 < p_z (velocity (physicsState c)))"

section \<open>Properties\<close>

lemmas constants =
  GRAVITY_def AIR_RESISTANCE_def WIND_FACTOR_def THROW_SCALE_def PERSPECTIVE_def
  GROUND_Y_def BIN_Z_def BIN_RADIUS_def BALL_RADIUS_def floorY_def binRimY_def

lemmas handlers =
  initial_def zero3_def resetBall_def handlePointerDown_def handlePointerMove_def
  handlePointerUp_def drag_dx_def drag_dy_def resize_def integrate_def landed_def missed_def
  collision_def physics_def render_def cleanup_def fireTimeout_def Let_def

subsection \<open>The example sessions, evaluated\<close>

lemma run_append: "run (es @ fs) c = run fs (run es c)"
  by (induction es arbitrary: c) simp_all

lemma run_replicate_numeral:
  "run (replicate (numeral k) e) c = run (replicate (pred_numeral k) e) (step e c)"
  by (simp add: numeral_eq_Suc)

lemma reachable_run: "reachable c \<Longrightarrow> reachable (run es c)"
  by (induction es arbitrary: c) (simp_all add: reachable_step)

lemma released_eq:
  "released =
     \<lparr>gameState = THROWN, score = 0,
      physicsState =
        \<lparr>ball = \<lparr>p_x = 0, p_y = 300, p_z = 0\<rparr>,
         velocity = \<lparr>p_x = 0, p_y = - (69 / 5), p_z = 207 / 8\<rparr>,
         dragStart = \<lparr>d_x = 400, d_y = 500\<rparr>, dragCurrent = \<lparr>d_x = 400, d_y = 385\<rparr>,
         lastTime = 0\<rparr>,
      canvas_width = 800, canvas_height = 600, scoreUpdates = [], timeouts = [],
      animationFrame = True, mounted = True\<rparr>"
  by (simp add: released_def swipe_def handlers constants)

lemma flight_eq:
  "flight =
     \<lparr>gameState = THROWN, score = 0,
      physicsState =
        \<lparr>ball = \<lparr>p_x = 0, p_y = 601 / 5,
                 p_z = 219829822775621939270533960449464833103587634114833650993 /
                       372529029846191406250000000000000000000000000000000000\<rparr>,
         velocity = \<lparr>p_x = 0, p_y = 17 / 10,
                     p_z = 5152865733481999794462954888786431977477803385411558143 /
                           372529029846191406250000000000000000000000000000000000\<rparr>,
         dragStart = \<lparr>d_x = 400, d_y = 500\<rparr>, dragCurrent = \<lparr>d_x = 400, d_y = 385\<rparr>,
         lastTime = 0\<rparr>,
      canvas_width = 800, canvas_height = 600, scoreUpdates = [], timeouts = [],
      animationFrame = True, mounted = True\<rparr>"
  unfolding flight_def released_eq
  by (simp add: run_replicate_numeral handlers constants)

lemma weak_drag_eq:
  "weak_drag =
     \<lparr>gameState = DRAGGING, score = 0,
      physicsState =
        \<lparr>ball = \<lparr>p_x = 0, p_y = 300, p_z = 0\<rparr>, velocity = \<lparr>p_x = 0, p_y = 0, p_z = 0\<rparr>,
         dragStart = \<lparr>d_x = 100, d_y = 500\<rparr>, dragCurrent = \<lparr>d_x = 100, d_y = 480\<rparr>,
         lastTime = 0\<rparr>,
      canvas_width = 800, canvas_height = 600, scoreUpdates = [], timeouts = [],
      animationFrame = True, mounted = True\<rparr>"
  by (simp add: weak_drag_def handlers)

lemma firm_drag_eq:
  "firm_drag =
     \<lparr>gameState = DRAGGING, score = 0,
      physicsState =
        \<lparr>ball = \<lparr>p_x = 0, p_y = 300, p_z = 0\<rparr>, velocity = \<lparr>p_x = 0, p_y = 0, p_z = 0\<rparr>,
         dragStart = \<lparr>d_x = 100, d_y = 500\<rparr>, dragCurrent = \<lparr>d_x = 100, d_y = 430\<rparr>,
         lastTime = 0\<rparr>,
      canvas_width = 800, canvas_height = 600, scoreUpdates = [], timeouts = [],
      animationFrame = True, mounted = True\<rparr>"
  by (simp add: firm_drag_def handlers)

lemma side_drag_eq:
  "side_drag =
     \<lparr>gameState = DRAGGING, score = 0,
      physicsState =
        \<lparr>ball = \<lparr>p_x = 0, p_y = 300, p_z = 0\<rparr>, velocity = \<lparr>p_x = 0, p_y = 0, p_z = 0\<rparr>,
         dragStart = \<lparr>d_x = 100, d_y = 500\<rparr>, dragCurrent = \<lparr>d_x = 160, d_y = 380\<rparr>,
         lastTime = 0\<rparr>,
      canvas_width = 800, canvas_height = 600, scoreUpdates = [], timeouts = [],
      animationFrame = True, mounted = True\<rparr>"
  by (simp add: side_drag_def handlers)

lemma long_flight_eq:
  "long_flight =
     \<lparr>gameState = THROWN, score = 0,
      physicsState =
        \<lparr>ball = \<lparr>p_x = 0, p_y = - 57, p_z = 3241791 / 5000\<rparr>,
         velocity = \<lparr>p_x = 0, p_y = - (237 / 2), p_z = 1058841 / 5000\<rparr>,
         dragStart = \<lparr>d_x = 960, d_y = 1050\<rparr>, dragCurrent = \<lparr>d_x = 960, d_y = 50\<rparr>,
         lastTime = 0\<rparr>,
      canvas_width = 1920, canvas_height = 1080, scoreUpdates = [], timeouts = [],
      animationFrame = True, mounted = True\<rparr>"
  by (simp add: long_flight_def long_swipe_def handlers constants)

lemma overshot_eq:
  "overshot =
     \<lparr>gameState = MISSED, score = 0,
      physicsState =
        \<lparr>ball = \<lparr>p_x = 0, p_y = - 175, p_z = 213972759 / 250000\<rparr>,
         velocity = \<lparr>p_x = 0, p_y = - 118, p_z = 51883209 / 250000\<rparr>,
         dragStart = \<lparr>d_x = 960, d_y = 1050\<rparr>, dragCurrent = \<lparr>d_x = 960, d_y = 50\<rparr>,
         lastTime = 0\<rparr>,
      canvas_width = 1920, canvas_height = 1080, scoreUpdates = [], timeouts = [1000],
      animationFrame = True, mounted = True\<rparr>"
  unfolding overshot_def long_flight_eq
  by (simp add: handlers constants)

lemma landing_eq:
  "landing =
     \<lparr>gameState = LANDED, score = 1,
      physicsState =
        \<lparr>ball = \<lparr>p_x = 0, p_y = 612 / 5,
                 p_z = 11243981559721714953455382812023776822075794071626848898657 /
                       18626451492309570312500000000000000000000000000000000000\<rparr>,
         velocity = \<lparr>p_x = 0, p_y = 11 / 5,
                     p_z = 252490420940617989928684789550535166896412365885166349007 /
                           18626451492309570312500000000000000000000000000000000000\<rparr>,
         dragStart = \<lparr>d_x = 400, d_y = 500\<rparr>, dragCurrent = \<lparr>d_x = 400, d_y = 385\<rparr>,
         lastTime = 0\<rparr>,
      canvas_width = 800, canvas_height = 600, scoreUpdates = [1], timeouts = [1000],
      animationFrame = True, mounted = True\<rparr>"
  unfolding landing_def flight_eq
  by (simp add: handlers constants)

lemma waited_eq:
  "waited = landing\<lparr>canvas_width := 1024, canvas_height := 768\<rparr>"
  unfolding waited_def landing_eq
  by (simp add: handlers)

lemma reset_done_eq:
  "reset_done =
     \<lparr>gameState = IDLE, score = 1,
      physicsState =
        \<lparr>ball = \<lparr>p_x = 0, p_y = 284, p_z = 0\<rparr>, velocity = \<lparr>p_x = 0, p_y = 0, p_z = 0\<rparr>,
         dragStart = \<lparr>d_x = 400, d_y = 500\<rparr>, dragCurrent = \<lparr>d_x = 400, d_y = 385\<rparr>,
         lastTime = 0\<rparr>,
      canvas_width = 1024, canvas_height = 768, scoreUpdates = [1], timeouts = [],
      animationFrame = True, mounted = True\<rparr>"
  unfolding reset_done_def waited_eq landing_eq
  by (simp add: handlers)

lemma idle_frame_eq:
  "idle_frame =
     \<lparr>gameState = IDLE, score = 1,
      physicsState =
        \<lparr>ball = \<lparr>p_x = 0, p_y = 300, p_z = 0\<rparr>, velocity = \<lparr>p_x = 0, p_y = 0, p_z = 0\<rparr>,
         dragStart = \<lparr>d_x = 400, d_y = 500\<rparr>, dragCurrent = \<lparr>d_x = 400, d_y = 385\<rparr>,
         lastTime = 0\<rparr>,
      canvas_width = 1024, canvas_height = 768, scoreUpdates = [1], timeouts = [],
      animationFrame = True, mounted = True\<rparr>"
  unfolding idle_frame_def reset_done_eq
  by (simp add: handlers)

lemma reachable_examples:
  "reachable released" "reachable flight" "reachable weak_drag" "reachable firm_drag"
  "reachable long_flight" "reachable overshot"
proof -
  show r: "reachable released"
    unfolding released_def by (intro reachable_run reachable_initial)
  show "reachable flight"
    unfolding flight_def by (intro reachable_run r)
  show "reachable weak_drag"
    unfolding weak_drag_def by (intro reachable_run reachable_initial)
  show "reachable firm_drag"
    unfolding firm_drag_def by (intro reachable_run reachable_initial)
  show l: "reachable long_flight"
    unfolding long_flight_def by (intro reachable_run reachable_initial)
  show "reachable overshot"
    unfolding overshot_def by (intro reachable_step l)
qed

subsection \<open>Invariants of the reachable states\<close>

lemma depth_step:
  assumes "0 \<le> p_z (ball (physicsState c)) \<and> 0 \<le> p_z (velocity (physicsState c))"
  shows "0 \<le> p_z (ball (physicsState (step e c))) \<and>
         0 \<le> p_z (velocity (physicsState (step e c)))"
proof (cases e)
  case (PointerDown px py)
  with assms show ?thesis by (simp add: handlePointerDown_def)
next
  case (PointerMove px py)
  with assms show ?thesis by (simp add: handlePointerMove_def)
next
  case (PointerUp px py)
  with assms show ?thesis
    by (auto simp: handlePointerUp_def Let_def THROW_SCALE_def min_def)
next
  case (PointerLeave px py)
  with assms show ?thesis
    by (auto simp: handlePointerUp_def Let_def THROW_SCALE_def min_def)
next
  case (Frame w iw ih)
  with assms show ?thesis
    by (simp add: render_def physics_def resize_def collision_def landed_def missed_def
          integrate_def resetBall_def Let_def constants)
next
  case Timeout
  with assms show ?thesis
    by (simp add: fireTimeout_def resetBall_def Let_def split: list.splits)
next
  case Unmount
  with assms show ?thesis by (simp add: cleanup_def)
qed

lemma depth_reachable:
  "reachable c \<Longrightarrow>
     0 \<le> p_z (ball (physicsState c)) \<and> 0 \<le> p_z (velocity (physicsState c))"
proof (induction rule: reachable.induct)
  case (reachable_initial w h)
  show ?case by (simp add: initial_def zero3_def)
next
  case (reachable_step c e)
  from reachable_step.IH show ?case by (rule depth_step)
qed

text \<open>No position is inside the bin and past the miss thresholds at once.\<close>

lemma scored_not_missed:
  "\<not> ((BIN_Z \<le> p_z b \<and> p_z b \<le> BIN_Z + 50) \<and> \<bar>p_y b - binRimY\<bar> < 50 \<and>
       \<bar>p_x b\<bar> < BIN_RADIUS \<and> (p_y b > floorY + 200 \<or> p_z b > BIN_Z + 200))"
  by (auto simp: constants)

lemma collision_cases:
  "collision c = c \<or> (collision c = landed c \<and> gameState (collision c) = LANDED)
     \<or> (collision c = missed c \<and> gameState (collision c) = MISSED)"
  using scored_not_missed [of "ball (physicsState c)"]
  by (auto simp: collision_def Let_def landed_def missed_def)

lemma phase_inv_render:
  assumes "phase_inv c"
  shows "phase_inv (render w iw ih c)"
proof (cases "gameState c = THROWN")
  case True
  let ?d = "c\<lparr>canvas_width := iw, canvas_height := ih\<rparr>
              \<lparr>physicsState := integrate w (physicsState c)\<rparr>"
  let ?e = "c\<lparr>physicsState := integrate w (physicsState c)\<rparr>"
  have t: "timeouts c = []"
    using assms True by (auto simp: phase_inv_def)
  have v: "0 < p_z (velocity (integrate w (physicsState c)))"
    using assms True by (simp add: phase_inv_def integrate_def Let_def constants)
  show ?thesis
    using collision_cases [of ?d] collision_cases [of ?e] True t v
    by (auto simp: render_def physics_def resize_def phase_inv_def landed_def missed_def)
next
  case False
  then show ?thesis
    using assms
    by (auto simp: render_def physics_def resize_def resetBall_def phase_inv_def zero3_def
          Let_def)
qed

lemma phase_inv_step:
  assumes "phase_inv c"
  shows "phase_inv (step e c)"
proof (cases e)
  case (PointerDown px py)
  with assms show ?thesis by (auto simp: handlePointerDown_def phase_inv_def)
next
  case (PointerMove px py)
  with assms show ?thesis by (auto simp: handlePointerMove_def phase_inv_def)
next
  case (PointerUp px py)
  with assms show ?thesis
    by (auto simp: handlePointerUp_def Let_def THROW_SCALE_def phase_inv_def)
next
  case (PointerLeave px py)
  with assms show ?thesis
    by (auto simp: handlePointerUp_def Let_def THROW_SCALE_def phase_inv_def)
next
  case (Frame w iw ih)
  with assms show ?thesis by (simp add: phase_inv_render)
next
  case Timeout
  with assms show ?thesis
    by (auto simp: fireTimeout_def resetBall_def Let_def phase_inv_def zero3_def
          split: list.splits)
next
  case Unmount
  with assms show ?thesis by (simp add: cleanup_def phase_inv_def)
qed

lemma phase_inv_reachable: "reachable c \<Longrightarrow> phase_inv c"
proof (induction rule: reachable.induct)
  case (reachable_initial w h)
  show ?case by (simp add: initial_def phase_inv_def)
next
  case (reachable_step c e)
  from reachable_step.IH show ?case by (rule phase_inv_step)
qed


subsection \<open>A frame in phase \<open>THROWN\<close>\<close>

lemma resize_not_idle:
  assumes "g \<noteq> IDLE"
  shows "physicsState (resize g iw ih c) = physicsState c"
    and "gameState (resize g iw ih c) = gameState c"
    and "score (resize g iw ih c) = score c"
    and "scoreUpdates (resize g iw ih c) = scoreUpdates c"
    and "timeouts (resize g iw ih c) = timeouts c"
    and "mounted (resize g iw ih c) = mounted c"
  using assms by (simp_all add: resize_def Let_def)

lemma render_thrown:
  "gameState c = THROWN \<Longrightarrow>
     render w iw ih c =
       (collision ((resize THROWN iw ih c)\<lparr>physicsState := integrate w (physicsState c)\<rparr>))
         \<lparr>animationFrame := True\<rparr>"
  by (simp add: render_def physics_def resize_not_idle Let_def)

lemma physicsState_render_thrown:
  "gameState c = THROWN \<Longrightarrow>
     physicsState (render w iw ih c) = integrate w (physicsState c)"
  by (simp add: render_def physics_def resize_def collision_def landed_def missed_def Let_def)

section \<open>The claims\<close>

text \<open>
  C2. In every frame run in phase \<open>THROWN\<close>, for every wind speed, the vertical velocity
  grows by exactly the gravity constant 0.5 and is not damped, so it strictly increases; the
  horizontal velocity first takes up \<open>wind.speed * 0.05\<close> and is then multiplied by 0.98; the
  depth velocity is multiplied by 0.98; and each position component then grows by the
  updated velocity component.
\<close>

theorem integration_step:
  assumes "gameState c = THROWN"
  shows "let v = velocity (physicsState c); b = ball (physicsState c);
             v' = velocity (physicsState (render w iw ih c));
             b' = ball (physicsState (render w iw ih c))
         in p_y v' = p_y v + 0.5 \<and> p_y v < p_y v' \<and>
            p_x v' = (p_x v + w * 0.05) * 0.98 \<and>
            p_z v' = p_z v * 0.98 \<and>
            p_x b' = p_x b + p_x v' \<and> p_y b' = p_y b + p_y v' \<and> p_z b' = p_z b + p_z v'"
  using assms by (simp add: physicsState_render_thrown integrate_def Let_def constants)

text \<open>The first frame after the release of the 115 pixel swipe, in a wind of speed 2.\<close>

theorem integration_step_witness:
  "gameState released = THROWN \<and>
   velocity (physicsState released) = \<lparr>p_x = 0, p_y = - 13.8, p_z = 25.875\<rparr> \<and>
   ball (physicsState released) = \<lparr>p_x = 0, p_y = 300, p_z = 0\<rparr> \<and>
   velocity (physicsState (render 2 800 600 released)) =
     \<lparr>p_x = 0.098, p_y = - 13.3, p_z = 25.3575\<rparr> \<and>
   ball (physicsState (render 2 800 600 released)) =
     \<lparr>p_x = 0.098, p_y = 286.7, p_z = 25.3575\<rparr>"
  using integration_step [of released 2 800 600]
  by (simp add: released_eq handlers constants)

text \<open>
  C1. In every frame run in phase \<open>THROWN\<close>, a score is recorded exactly when the ball's
  position after integration satisfies all three conditions together: depth within
  \<open>[BIN_Z, BIN_Z + 50] = [600, 650]\<close>, height within 50 of the rim height 150, and
  horizontal offset of magnitude below the radius 60. If any one of them fails, the frame
  records no score: the score and the values reported upward stay as they were.
\<close>

theorem scored_iff_three_conditions:
  assumes "gameState c = THROWN"
  shows "let c' = render w iw ih c; b = ball (physicsState c')
         in b = ball (integrate w (physicsState c)) \<and>
            (score c' = score c + 1 \<longleftrightarrow>
               600 \<le> p_z b \<and> p_z b \<le> 650 \<and> \<bar>p_y b - 150\<bar> < 50 \<and> \<bar>p_x b\<bar> < 60) \<and>
            (gameState c' = LANDED \<longleftrightarrow>
               600 \<le> p_z b \<and> p_z b \<le> 650 \<and> \<bar>p_y b - 150\<bar> < 50 \<and> \<bar>p_x b\<bar> < 60) \<and>
            (score c' = score c \<and> scoreUpdates c' = scoreUpdates c \<longleftrightarrow>
               \<not> (600 \<le> p_z b \<and> p_z b \<le> 650 \<and> \<bar>p_y b - 150\<bar> < 50 \<and> \<bar>p_x b\<bar> < 60))"
  using assms
  by (auto simp: render_thrown resize_not_idle collision_def landed_def missed_def Let_def
        constants)

text \<open>Frame 32 of the 115 pixel swipe scores; frame 1 does not (the ball is at depth
  25.875, short of the bin).\<close>

theorem scored_iff_three_conditions_witness:
  "gameState flight = THROWN \<and>
   score (render 0 800 600 flight) = score flight + 1 \<and>
   gameState (render 0 800 600 flight) = LANDED \<and>
   p_y (ball (physicsState (render 0 800 600 flight))) = 122.4 \<and>
   600 \<le> p_z (ball (physicsState (render 0 800 600 flight))) \<and>
   p_z (ball (physicsState (render 0 800 600 flight))) \<le> 650 \<and>
   gameState released = THROWN \<and>
   score (render 0 800 600 released) = score released \<and>
   \<not> 600 \<le> p_z (ball (physicsState (render 0 800 600 released)))"
  using scored_iff_three_conditions [of flight 0 800 600]
    scored_iff_three_conditions [of released 0 800 600]
  by (simp add: flight_eq released_eq handlers constants)

text \<open>
  C3. In every frame run in phase \<open>THROWN\<close>, the frame ends in phase \<open>MISSED\<close> exactly when
  the ball's position after integration has height above 500 or depth above
  \<open>BIN_Z + 200 = 800\<close>. A position that satisfies the scoring conditions is always recorded
  as a score; the scoring conditions and the miss conditions exclude each other, so no frame
  has both outcomes to choose between.
\<close>

theorem missed_iff_overshoot:
  assumes "gameState c = THROWN"
  shows "let c' = render w iw ih c; b = ball (physicsState c')
         in b = ball (integrate w (physicsState c)) \<and>
            (gameState c' = MISSED \<longleftrightarrow> p_y b > 500 \<or> p_z b > 800) \<and>
            (600 \<le> p_z b \<and> p_z b \<le> 650 \<and> \<bar>p_y b - 150\<bar> < 50 \<and> \<bar>p_x b\<bar> < 60
               \<longrightarrow> gameState c' = LANDED \<and> score c' = score c + 1) \<and>
            \<not> ((600 \<le> p_z b \<and> p_z b \<le> 650 \<and> \<bar>p_y b - 150\<bar> < 50 \<and> \<bar>p_x b\<bar> < 60) \<and>
               (p_y b > 500 \<or> p_z b > 800))"
  using assms
  by (auto simp: render_thrown resize_not_idle collision_def landed_def missed_def Let_def
        constants)

text \<open>Frame 4 of the 1000 pixel swipe carries the ball past depth 800; frame 32 of the
  115 pixel swipe meets the scoring conditions.\<close>

theorem missed_iff_overshoot_witness:
  "gameState long_flight = THROWN \<and>
   gameState (render 0 1920 1080 long_flight) = MISSED \<and>
   p_z (ball (physicsState (render 0 1920 1080 long_flight))) > 800 \<and>
   gameState flight = THROWN \<and>
   \<bar>p_y (ball (physicsState (render 0 800 600 flight))) - 150\<bar> < 50 \<and>
   \<bar>p_x (ball (physicsState (render 0 800 600 flight)))\<bar> < 60 \<and>
   gameState (render 0 800 600 flight) = LANDED"
  using missed_iff_overshoot [of long_flight 0 1920 1080]
    missed_iff_overshoot [of flight 0 800 600]
  by (simp add: long_flight_eq flight_eq handlers constants)



text \<open>
  C5. When the pointer is released in phase \<open>DRAGGING\<close> and the recorded gesture delta
  \<open>(dx, dy) = (dragCurrent.x - dragStart.x, dragCurrent.y - dragStart.y)\<close> has \<open>dy \<le> -50\<close>,
  the phase becomes \<open>THROWN\<close> and the velocity is set to
  \<open>(dx * 0.15 * 0.5, dy * 0.15 * 0.8, \<bar>dy\<bar> * 0.15 * 1.5)\<close>: the vertical component is
  negative (upward on the screen), the depth component positive. The ball is not moved.
  Seen as a whole gesture on an idle, mounted component: a press at \<open>(sx, sy)\<close>, a move to
  \<open>(cx, cy)\<close> with \<open>cy - sy \<le> -50\<close> and a release anywhere give phase \<open>THROWN\<close> with velocity
  \<open>((cx - sx) * 0.15 * 0.5, (cy - sy) * 0.15 * 0.8, \<bar>cy - sy\<bar> * 0.15 * 1.5)\<close>.
\<close>

theorem throw_velocity:
  "(gameState c = DRAGGING \<and>
    d_y (dragCurrent (physicsState c)) - d_y (dragStart (physicsState c)) \<le> - 50 \<longrightarrow>
      (let dx = d_x (dragCurrent (physicsState c)) - d_x (dragStart (physicsState c));
           dy = d_y (dragCurrent (physicsState c)) - d_y (dragStart (physicsState c));
           c' = handlePointerUp ex ey c; v = velocity (physicsState c')
       in gameState c' = THROWN \<and>
          p_x v = dx * 0.15 * 0.5 \<and>
          p_y v = dy * 0.15 * 0.8 \<and>
          p_z v = \<bar>dy\<bar> * 0.15 * 1.5 \<and>
          p_y v < 0 \<and> 0 < p_z v \<and>
          ball (physicsState c') = ball (physicsState c))) \<and>
   (gameState c0 = IDLE \<and> mounted c0 \<and> cy - sy \<le> - 50 \<longrightarrow>
      (let c' = run [PointerDown sx sy, PointerMove cx cy, PointerUp ux uy] c0;
           v = velocity (physicsState c')
       in gameState c' = THROWN \<and>
          p_x v = (cx - sx) * 0.15 * 0.5 \<and>
          p_y v = (cy - sy) * 0.15 * 0.8 \<and>
          p_z v = \<bar>cy - sy\<bar> * 0.15 * 1.5 \<and>
          p_y v < 0 \<and> 0 < p_z v \<and>
          ball (physicsState c') = ball (physicsState c0)))"
  by (auto simp: handlePointerDown_def handlePointerMove_def handlePointerUp_def
        drag_dx_def drag_dy_def Let_def min_def abs_if THROW_SCALE_def)

text \<open>The gesture from (100, 500) to (160, 380), \<open>dx = 60\<close> and \<open>dy = -120\<close>, as a recorded
  drag and as a whole gesture; and the gesture from (100, 500) to (100, 430), \<open>dx = 0\<close> and
  \<open>dy = -70\<close>.\<close>

theorem throw_velocity_witness:
  "gameState side_drag = DRAGGING \<and>
   d_x (dragCurrent (physicsState side_drag)) - d_x (dragStart (physicsState side_drag)) = 60 \<and>
   d_y (dragCurrent (physicsState side_drag)) - d_y (dragStart (physicsState side_drag)) = - 120 \<and>
   gameState (handlePointerUp 160 380 side_drag) = THROWN \<and>
   velocity (physicsState (handlePointerUp 160 380 side_drag)) =
     \<lparr>p_x = 4.5, p_y = - 14.4, p_z = 27\<rparr> \<and>
   gameState (initial 800 600) = IDLE \<and> mounted (initial 800 600) \<and>
   gameState (run [PointerDown 100 500, PointerMove 160 380, PointerUp 170 370]
      (initial 800 600)) = THROWN \<and>
   velocity (physicsState (run [PointerDown 100 500, PointerMove 160 380, PointerUp 170 370]
      (initial 800 600))) = \<lparr>p_x = 4.5, p_y = - 14.4, p_z = 27\<rparr> \<and>
   gameState firm_drag = DRAGGING \<and>
   d_x (dragCurrent (physicsState firm_drag)) - d_x (dragStart (physicsState firm_drag)) = 0 \<and>
   d_y (dragCurrent (physicsState firm_drag)) - d_y (dragStart (physicsState firm_drag)) = - 70 \<and>
   gameState (handlePointerUp 100 430 firm_drag) = THROWN \<and>
   velocity (physicsState (handlePointerUp 100 430 firm_drag)) =
     \<lparr>p_x = 0, p_y = - 8.4, p_z = 15.75\<rparr>"
  using throw_velocity [where c = side_drag and ex = 160 and ey = 380
      and ?c0.0 = "initial 800 600" and sx = 100 and sy = 500 and cx = 160 and cy = 380
      and ux = 170 and uy = 370]
    throw_velocity [where c = firm_drag and ex = 100 and ey = 430
      and ?c0.0 = "initial 800 600" and sx = 100 and sy = 500 and cx = 100 and cy = 430
      and ux = 100 and uy = 430]
  by (simp add: side_drag_eq firm_drag_eq handlers constants)

text \<open>
  C6. For every point \<open>p\<close> and screen origin, \<^verbatim>\<open>project\<close> returns
  \<open>scale = 800 / (800 + p.z)\<close>, \<open>x = originX + p.x * scale\<close> and
  \<open>y = originY + p.y * scale\<close>, wherever the quotient is a number (the divisor is not
  zero); and equal inputs give equal results.
\<close>

theorem project_formula:
  "project originX originY p =
     (if 800 + p_z p = 0 then None
      else Some \<lparr>s_x = originX + p_x p * (800 / (800 + p_z p)),
                 s_y = originY + p_y p * (800 / (800 + p_z p)),
                 scale = 800 / (800 + p_z p)\<rparr>) \<and>
   (originX = originX' \<and> originY = originY' \<and> p = p' \<longrightarrow>
      project originX originY p = project originX' originY' p')"
  by (simp add: project_def PERSPECTIVE_def Let_def)

text \<open>The bin position of line 208, seen from the centre of an 800 by 600 canvas.\<close>

theorem project_formula_witness:
  "project 400 400 \<lparr>p_x = 0, p_y = 150, p_z = 600\<rparr> =
     Some \<lparr>s_x = 400, s_y = 400 + 150 * (4 / 7), scale = 4 / 7\<rparr> \<and>
   project 400 400 \<lparr>p_x = 0, p_y = 150, p_z = 600\<rparr> =
     project 400 400 \<lparr>p_x = 0, p_y = 150, p_z = 600\<rparr>"
  using project_formula [of 400 400 "\<lparr>p_x = 0, p_y = 150, p_z = 600\<rparr>" 400 400
      "\<lparr>p_x = 0, p_y = 150, p_z = 600\<rparr>"]
  by simp

subsection \<open>From a score back to \<open>IDLE\<close>\<close>

lemma waiting_step:
  assumes "gameState c = LANDED \<or> gameState c = MISSED" and "e \<noteq> Timeout" and "e \<noteq> Unmount"
  shows "gameState (step e c) = gameState c \<and> physicsState (step e c) = physicsState c \<and>
         score (step e c) = score c \<and> scoreUpdates (step e c) = scoreUpdates c \<and>
         timeouts (step e c) = timeouts c \<and> mounted (step e c) = mounted c"
  using assms
  by (cases e)
     (auto simp: handlePointerDown_def handlePointerMove_def handlePointerUp_def
        render_def physics_def resize_def Let_def)

lemma waiting_run:
  assumes "gameState c = LANDED \<or> gameState c = MISSED"
    and "\<forall>e\<in>set es. e \<noteq> Timeout \<and> e \<noteq> Unmount"
  shows "gameState (run es c) = gameState c \<and> physicsState (run es c) = physicsState c \<and>
         score (run es c) = score c \<and> scoreUpdates (run es c) = scoreUpdates c \<and>
         timeouts (run es c) = timeouts c \<and> mounted (run es c) = mounted c"
  using assms
proof (induction es arbitrary: c)
  case Nil
  show ?case by simp
next
  case (Cons e es)
  have s: "gameState (step e c) = gameState c \<and> physicsState (step e c) = physicsState c \<and>
         score (step e c) = score c \<and> scoreUpdates (step e c) = scoreUpdates c \<and>
         timeouts (step e c) = timeouts c \<and> mounted (step e c) = mounted c"
    using Cons.prems by (intro waiting_step) simp_all
  have "gameState (step e c) = LANDED \<or> gameState (step e c) = MISSED"
    using s Cons.prems(1) by simp
  moreover have "\<forall>e\<in>set es. e \<noteq> Timeout \<and> e \<noteq> Unmount"
    using Cons.prems(2) by simp
  ultimately show ?case using Cons.IH [of "step e c"] s by simp
qed

lemma render_scored:
  assumes "gameState c = THROWN"
    and "let b = ball (integrate w (physicsState c))
         in 600 \<le> p_z b \<and> p_z b \<le> 650 \<and> \<bar>p_y b - 150\<bar> < 50 \<and> \<bar>p_x b\<bar> < 60"
  shows "gameState (render w iw ih c) = LANDED"
    and "score (render w iw ih c) = score c + 1"
    and "scoreUpdates (render w iw ih c) = scoreUpdates c @ [score c + 1]"
    and "timeouts (render w iw ih c) = timeouts c @ [1000]"
    and "mounted (render w iw ih c) = mounted c"
  using assms
  by (auto simp: render_thrown resize_not_idle collision_def landed_def missed_def Let_def
        constants)

lemma fireTimeout_single:
  assumes "timeouts c = [d]" and "mounted c"
  shows "gameState (step Timeout c) = IDLE"
    and "timeouts (step Timeout c) = []"
    and "score (step Timeout c) = score c"
    and "velocity (physicsState (step Timeout c)) = \<lparr>p_x = 0, p_y = 0, p_z = 0\<rparr>"
    and "ball (physicsState (step Timeout c)) =
           \<lparr>p_x = 0, p_y = real (canvas_height c) / 2 - 100, p_z = 0\<rparr>"
  using assms by (simp_all add: fireTimeout_def resetBall_def Let_def)

lemma render_idle:
  assumes "gameState c = IDLE" and "velocity (physicsState c) = \<lparr>p_x = 0, p_y = 0, p_z = 0\<rparr>"
  shows "gameState (render w iw ih c) = IDLE"
    and "ball (physicsState (render w iw ih c)) = \<lparr>p_x = 0, p_y = 300, p_z = 0\<rparr>"
    and "velocity (physicsState (render w iw ih c)) = \<lparr>p_x = 0, p_y = 0, p_z = 0\<rparr>"
  using assms by (auto simp: render_def physics_def resize_def resetBall_def Let_def)

text \<open>
  C7. Let a frame run in a reachable, mounted state of phase \<open>THROWN\<close>, and let the ball's
  position after integration satisfy the scoring conditions. Then that frame sets the phase
  to \<open>LANDED\<close>, increments the score by exactly one, hands the new score to
  \<^verbatim>\<open>onScoreUpdate\<close>, and leaves exactly one reset pending, with a delay of 1000
  milliseconds. Whatever frames and pointer events arrive meanwhile, the phase, the score and
  the physics state stay as they are. When the timeout fires, the phase is \<open>IDLE\<close>, the
  velocity is zero and the ball is at \<open>(0, canvas.height / 2 - 100, 0)\<close>; the next frame,
  run in phase \<open>IDLE\<close>, draws the ball at the launch point \<open>(0, 300, 0)\<close>, still at rest.
\<close>

theorem score_then_reset:
  assumes "reachable c" and "mounted c" and "gameState c = THROWN"
    and "let b = ball (integrate w (physicsState c))
         in 600 \<le> p_z b \<and> p_z b \<le> 650 \<and> \<bar>p_y b - 150\<bar> < 50 \<and> \<bar>p_x b\<bar> < 60"
    and "\<forall>e\<in>set es. e \<noteq> Timeout \<and> e \<noteq> Unmount"
  shows "let c1 = render w iw ih c; c2 = run es c1; c3 = step Timeout c2;
             c4 = render w' iw' ih' c3
         in gameState c1 = LANDED \<and> score c1 = score c + 1 \<and>
            scoreUpdates c1 = scoreUpdates c @ [score c + 1] \<and> timeouts c1 = [1000] \<and>
            gameState c2 = LANDED \<and> score c2 = score c + 1 \<and> timeouts c2 = [1000] \<and>
            physicsState c2 = physicsState c1 \<and>
            gameState c3 = IDLE \<and> score c3 = score c + 1 \<and> timeouts c3 = [] \<and>
            velocity (physicsState c3) = \<lparr>p_x = 0, p_y = 0, p_z = 0\<rparr> \<and>
            ball (physicsState c3) =
              \<lparr>p_x = 0, p_y = real (canvas_height c2) / 2 - 100, p_z = 0\<rparr> \<and>
            gameState c4 = IDLE \<and>
            ball (physicsState c4) = \<lparr>p_x = 0, p_y = 300, p_z = 0\<rparr> \<and>
            velocity (physicsState c4) = \<lparr>p_x = 0, p_y = 0, p_z = 0\<rparr>"
proof -
  let ?c1 = "render w iw ih c"
  let ?c2 = "run es ?c1"
  let ?c3 = "step Timeout ?c2"
  have t: "timeouts c = []"
    using phase_inv_reachable [OF assms(1)] assms(3) by (auto simp: phase_inv_def)
  note r = render_scored [OF assms(3) assms(4), of iw ih]
  have c1: "gameState ?c1 = LANDED" "score ?c1 = score c + 1"
    "scoreUpdates ?c1 = scoreUpdates c @ [score c + 1]" "timeouts ?c1 = [1000]" "mounted ?c1"
    using r t assms(2) by simp_all
  have w: "gameState ?c2 = gameState ?c1 \<and> physicsState ?c2 = physicsState ?c1 \<and>
         score ?c2 = score ?c1 \<and> scoreUpdates ?c2 = scoreUpdates ?c1 \<and>
         timeouts ?c2 = timeouts ?c1 \<and> mounted ?c2 = mounted ?c1"
    using c1(1) assms(5) by (intro waiting_run) simp_all
  have c2: "timeouts ?c2 = [1000]" "mounted ?c2"
    using w c1 by simp_all
  note f = fireTimeout_single [OF c2]
  note i = render_idle [OF f(1) f(4), of w' iw' ih']
  show ?thesis
    unfolding Let_def using c1 w f i by simp
qed

text \<open>The 115 pixel swipe lands on frame 32. Two frames, one of them after the window
  has grown to 1024 by 768, and a pointer press pass before the timeout fires.\<close>

theorem score_then_reset_witness:
  "reachable flight \<and> mounted flight \<and> gameState flight = THROWN \<and> score flight = 0 \<and>
   gameState landing = LANDED \<and> score landing = 1 \<and> scoreUpdates landing = [1] \<and>
   timeouts landing = [1000] \<and>
   gameState waited = LANDED \<and> physicsState waited = physicsState landing \<and>
   gameState reset_done = IDLE \<and> score reset_done = 1 \<and> timeouts reset_done = [] \<and>
   ball (physicsState reset_done) = \<lparr>p_x = 0, p_y = 284, p_z = 0\<rparr> \<and>
   velocity (physicsState reset_done) = \<lparr>p_x = 0, p_y = 0, p_z = 0\<rparr> \<and>
   gameState idle_frame = IDLE \<and>
   ball (physicsState idle_frame) = \<lparr>p_x = 0, p_y = 300, p_z = 0\<rparr> \<and>
   velocity (physicsState idle_frame) = \<lparr>p_x = 0, p_y = 0, p_z = 0\<rparr>"
proof -
  have h: "mounted flight" "gameState flight = THROWN" "score flight = 0"
    "scoreUpdates flight = []"
    by (simp_all add: flight_eq)
  have s: "let b = ball (integrate 0 (physicsState flight))
           in 600 \<le> p_z b \<and> p_z b \<le> 650 \<and> \<bar>p_y b - 150\<bar> < 50 \<and> \<bar>p_x b\<bar> < 60"
    by (simp add: flight_eq integrate_def constants Let_def)
  have e: "\<forall>e\<in>set [Frame 0 800 600, PointerDown 400 500, Frame 0 1024 768].
             e \<noteq> Timeout \<and> e \<noteq> Unmount"
    by simp
  note t = score_then_reset [OF reachable_examples(2) h(1) h(2) s e, of 800 600 0 1024 768,
      unfolded Let_def, folded landing_def, folded waited_def, folded reset_done_def,
      folded idle_frame_def]
  show ?thesis
    using t h reachable_examples(2) by (simp add: waited_eq)
qed

text \<open>
  C8. A call of \<^verbatim>\<open>render\<close> integrates the ball only in phase \<open>THROWN\<close>, where the new
  physics state is the integration step of the old one. In phase \<open>LANDED\<close> or \<open>MISSED\<close> it
  leaves the physics state alone. In phase \<open>IDLE\<close> or \<open>DRAGGING\<close> the ball that is drawn is
  at the launch point \<open>(0, 300, 0)\<close>, and the velocity is not integrated: it is kept, or, in
  phase \<open>IDLE\<close> on a resize, set to zero.
\<close>

theorem integrated_only_when_thrown:
  "let c' = render w iw ih c
   in (gameState c = THROWN \<longrightarrow> physicsState c' = integrate w (physicsState c)) \<and>
      (gameState c = LANDED \<or> gameState c = MISSED \<longrightarrow> physicsState c' = physicsState c) \<and>
      (gameState c = IDLE \<or> gameState c = DRAGGING \<longrightarrow>
         ball (physicsState c') = \<lparr>p_x = 0, p_y = 300, p_z = 0\<rparr>) \<and>
      (gameState c = DRAGGING \<longrightarrow> velocity (physicsState c') = velocity (physicsState c)) \<and>
      (gameState c = IDLE \<longrightarrow>
         velocity (physicsState c') =
           (if canvas_width c \<noteq> iw \<or> canvas_height c \<noteq> ih then \<lparr>p_x = 0, p_y = 0, p_z = 0\<rparr>
            else velocity (physicsState c)))"
proof -
  have "gameState c = THROWN \<Longrightarrow>
          physicsState (render w iw ih c) = integrate w (physicsState c)"
    by (rule physicsState_render_thrown)
  moreover have "gameState c \<noteq> THROWN \<Longrightarrow> ?thesis"
    by (auto simp: render_def physics_def resize_def resetBall_def Let_def)
  ultimately show ?thesis
    by (cases "gameState c = THROWN") (simp_all add: Let_def)
qed

text \<open>One state of each kind: just mounted, dragging, in flight, and after a miss.\<close>

theorem integrated_only_when_thrown_witness:
  "gameState (initial 300 150) = IDLE \<and>
   ball (physicsState (render 0 800 600 (initial 300 150))) = \<lparr>p_x = 0, p_y = 300, p_z = 0\<rparr> \<and>
   gameState weak_drag = DRAGGING \<and>
   ball (physicsState (render 0 1024 768 weak_drag)) = \<lparr>p_x = 0, p_y = 300, p_z = 0\<rparr> \<and>
   velocity (physicsState (render 0 1024 768 weak_drag)) = velocity (physicsState weak_drag) \<and>
   gameState released = THROWN \<and>
   physicsState (render 2 800 600 released) = integrate 2 (physicsState released) \<and>
   gameState overshot = MISSED \<and>
   physicsState (render 2 800 600 overshot) = physicsState overshot"
  using integrated_only_when_thrown [of 0 800 600 "initial 300 150"]
    integrated_only_when_thrown [of 0 1024 768 weak_drag]
    integrated_only_when_thrown [of 2 800 600 released]
    integrated_only_when_thrown [of 2 800 600 overshot]
  by (simp add: weak_drag_eq released_eq overshot_eq initial_def Let_def)

text \<open>
  C9. In every reachable state the ball's depth is not negative, so the divisor of the
  projection is at least 800 and the scale of the drawn ball lies in \<open>(0, 1]\<close>. The depth
  velocity is never negative and is positive throughout phase \<open>THROWN\<close>; a committed throw
  starts with depth velocity \<open>\<bar>dy\<bar> * 0.225\<close>, which is at least 11.25.
\<close>

theorem depth_never_negative:
  assumes "reachable c"
  shows "0 \<le> p_z (ball (physicsState c)) \<and>
         800 \<le> PERSPECTIVE + p_z (ball (physicsState c)) \<and>
         (\<exists>sp. projBall c = Some sp \<and> 0 < scale sp \<and> scale sp \<le> 1 \<and>
               scale sp = PERSPECTIVE / (PERSPECTIVE + p_z (ball (physicsState c)))) \<and>
         0 \<le> p_z (velocity (physicsState c)) \<and>
         (gameState c = THROWN \<longrightarrow> 0 < p_z (velocity (physicsState c))) \<and>
         (gameState c = DRAGGING \<and> gameState (handlePointerUp ex ey c) = THROWN \<longrightarrow>
            p_z (velocity (physicsState (handlePointerUp ex ey c))) = \<bar>drag_dy c\<bar> * 0.225 \<and>
            11.25 \<le> p_z (velocity (physicsState (handlePointerUp ex ey c))))"
proof -
  have d: "0 \<le> p_z (ball (physicsState c))" "0 \<le> p_z (velocity (physicsState c))"
    using depth_reachable [OF assms] by simp_all
  have t: "gameState c = THROWN \<longrightarrow> 0 < p_z (velocity (physicsState c))"
    using phase_inv_reachable [OF assms] by (simp add: phase_inv_def)
  have p: "\<exists>sp. projBall c = Some sp \<and> 0 < scale sp \<and> scale sp \<le> 1 \<and>
               scale sp = PERSPECTIVE / (PERSPECTIVE + p_z (ball (physicsState c)))"
    using d(1) by (simp add: projBall_def project_def Let_def PERSPECTIVE_def)
  have u: "gameState c = DRAGGING \<and> gameState (handlePointerUp ex ey c) = THROWN \<longrightarrow>
            p_z (velocity (physicsState (handlePointerUp ex ey c))) = \<bar>drag_dy c\<bar> * 0.225 \<and>
            11.25 \<le> p_z (velocity (physicsState (handlePointerUp ex ey c)))"
    by (auto simp: handlePointerUp_def Let_def min_def abs_if THROW_SCALE_def)
  show ?thesis
    using d t p u by (simp add: PERSPECTIVE_def)
qed

text \<open>The ball in flight after three frames of the 1000 pixel swipe, and the release of
  the gesture from (100, 500) to (100, 430).\<close>

theorem depth_never_negative_witness:
  "reachable long_flight \<and> gameState long_flight = THROWN \<and>
   p_z (ball (physicsState long_flight)) = 648.3582 \<and>
   (\<exists>sp. projBall long_flight = Some sp \<and> 0 < scale sp \<and> scale sp \<le> 1) \<and>
   0 < p_z (velocity (physicsState long_flight)) \<and>
   reachable firm_drag \<and> gameState firm_drag = DRAGGING \<and>
   gameState (handlePointerUp 100 430 firm_drag) = THROWN \<and>
   p_z (velocity (physicsState (handlePointerUp 100 430 firm_drag))) = 15.75"
  using depth_never_negative [of long_flight 0 0] depth_never_negative [of firm_drag 100 430]
    reachable_examples(4,5)
  by (auto simp: long_flight_eq firm_drag_eq handlePointerUp_def drag_dy_def THROW_SCALE_def
        Let_def)

subsection \<open>Teardown while a reset is pending\<close>

text \<open>The cleanup cancels the scheduled frame and leaves every pending timeout in place;
  a timeout that fires afterwards overwrites the ball and the velocity.\<close>

lemma unmount_keeps_timeout:
  "timeouts (step Unmount c) = timeouts c \<and>
   \<not> animationFrame (step Unmount c) \<and> \<not> mounted (step Unmount c) \<and>
   physicsState (step Unmount c) = physicsState c \<and>
   step (Frame w iw ih) (step Unmount c) = step Unmount c \<and>
   (timeouts c = d # ds \<longrightarrow>
      timeouts (step Timeout (step Unmount c)) = ds \<and>
      ball (physicsState (step Timeout (step Unmount c))) =
        \<lparr>p_x = 0, p_y = real (canvas_height c) / 2 - 100, p_z = 0\<rparr> \<and>
      velocity (physicsState (step Timeout (step Unmount c))) = \<lparr>p_x = 0, p_y = 0, p_z = 0\<rparr> \<and>
      gameState (step Timeout (step Unmount c)) = gameState c)"
  by (simp add: cleanup_def fireTimeout_def resetBall_def Let_def)

text \<open>
  C10. The claim: if the component is torn down in phase \<open>LANDED\<close> or \<open>MISSED\<close> before the
  reset delay has passed, the deferred reset does not run. The code: after the miss of the
  1000 pixel swipe the reset is pending; the teardown cancels the scheduled frame only; the
  reset is still pending afterwards, and when it fires it moves the ball from
  \<open>(0, -175, 855.891036)\<close> to \<open>(0, 440, 0)\<close> and clears the velocity.
\<close>

theorem reset_runs_after_unmount:
  "reachable overshot \<and> gameState overshot = MISSED \<and> timeouts overshot = [1000] \<and>
   \<not> mounted (step Unmount overshot) \<and> \<not> animationFrame (step Unmount overshot) \<and>
   timeouts (step Unmount overshot) = [1000] \<and>
   ball (physicsState (step Unmount overshot)) = \<lparr>p_x = 0, p_y = - 175, p_z = 855.891036\<rparr> \<and>
   velocity (physicsState (step Unmount overshot)) =
     \<lparr>p_x = 0, p_y = - 118, p_z = 207.532836\<rparr> \<and>
   ball (physicsState (step Timeout (step Unmount overshot))) =
     \<lparr>p_x = 0, p_y = 440, p_z = 0\<rparr> \<and>
   velocity (physicsState (step Timeout (step Unmount overshot))) =
     \<lparr>p_x = 0, p_y = 0, p_z = 0\<rparr> \<and>
   physicsState (step Timeout (step Unmount overshot)) \<noteq> physicsState (step Unmount overshot)"
  using reachable_examples(6)
  by (simp add: overshot_eq cleanup_def fireTimeout_def resetBall_def Let_def)

end
